theory Spec2Isabelle
  imports Complex_Main
begin

section \<open>JavaScript values\<close>

text \<open>
  The values that reach the job model: query-string values and route parameters are
  strings, the tests pass numbers, and a destructured key that is absent is
  \<open>undefined\<close>. Numbers are modelled as integers (\<open>JNum\<close>) plus \<open>NaN\<close>;
  non-integer doubles, arrays and objects are outside the model. A \<open>char\<close> stands for
  one code unit below 256.
\<close>

datatype jsval = JUndefined | JNull | JBool bool | JNum int | JNaN | JStr string

text \<open>ToBoolean: what \<^verbatim>\<open>if (x)\<close>, \<^verbatim>\<open>x && y\<close> and \<^verbatim>\<open>!x\<close> test.\<close>

fun truthy :: "jsval \<Rightarrow> bool" where
  "truthy JUndefined = False"
| "truthy JNull = False"
| "truthy (JBool b) = b"
| "truthy (JNum n) = (n \<noteq> 0)"
| "truthy JNaN = False"
| "truthy (JStr s) = (s \<noteq> [])"

definition digit_char :: "nat \<Rightarrow> char" where
  "digit_char d = ''0123456789'' ! d"

fun show_nat :: "nat \<Rightarrow> string" where
  "show_nat n = (if n < 10 then [digit_char n] else show_nat (n div 10) @ [digit_char (n mod 10)])"

declare show_nat.simps [simp del]

definition show_int :: "int \<Rightarrow> string" where
  "show_int i = (if i < 0 then ''-'' @ show_nat (nat (- i)) else show_nat (nat i))"

text \<open>
  ToString, as a template literal \<^verbatim>\<open>`${x}`\<close> applies it. An integer number prints in
  plain decimals (JavaScript does so below \<open>10^21\<close>).
\<close>

fun js_String :: "jsval \<Rightarrow> string" where
  "js_String JUndefined = ''undefined''"
| "js_String JNull = ''null''"
| "js_String (JBool b) = (if b then ''true'' else ''false'')"
| "js_String (JNum n) = show_int n"
| "js_String JNaN = ''NaN''"
| "js_String (JStr s) = s"

subsection \<open>The global \<^verbatim>\<open>isNaN\<close>\<close>

text \<open>
  \<^verbatim>\<open>isNaN(x)\<close> converts \<open>x\<close> with ToNumber and tests the result for \<open>NaN\<close>. A string
  converts to a number when, with white space trimmed, it is empty, a prefixed hexadecimal,
  octal or binary integer, or an optionally signed decimal literal or \<open>Infinity\<close>.
\<close>

definition is_digit :: "char \<Rightarrow> bool" where
  "is_digit c = (c \<in> set ''0123456789'')"

definition is_js_space :: "char \<Rightarrow> bool" where
  "is_js_space c = (c \<in> set [CHR 0x09, CHR 0x0A, CHR 0x0B, CHR 0x0C, CHR 0x0D, CHR 0x20, CHR 0xA0])"

definition trim_by :: "(char \<Rightarrow> bool) \<Rightarrow> string \<Rightarrow> string" where
  "trim_by sp s = rev (dropWhile sp (rev (dropWhile sp s)))"

definition strip_sign :: "string \<Rightarrow> string" where
  "strip_sign s = (case s of [] \<Rightarrow> [] | c # cs \<Rightarrow> if c = CHR ''+'' \<or> c = CHR ''-'' then cs else s)"

definition all_in :: "string \<Rightarrow> string \<Rightarrow> bool" where
  "all_in alphabet s = (s \<noteq> [] \<and> list_all (\<lambda>c. c \<in> set alphabet) s)"

definition is_exponent :: "string \<Rightarrow> bool" where
  "is_exponent s = (case s of [] \<Rightarrow> True
     | c # cs \<Rightarrow> (c = CHR ''e'' \<or> c = CHR ''E'') \<and> all_in ''0123456789'' (strip_sign cs))"

definition is_unsigned_decimal :: "string \<Rightarrow> bool" where
  "is_unsigned_decimal s =
     (let ip = takeWhile is_digit s; r1 = dropWhile is_digit s in
      case r1 of
        [] \<Rightarrow> ip \<noteq> []
      | c # cs \<Rightarrow>
          if c = CHR ''.'' then
            (ip \<noteq> [] \<or> takeWhile is_digit cs \<noteq> []) \<and> is_exponent (dropWhile is_digit cs)
          else ip \<noteq> [] \<and> is_exponent r1)"

definition is_numeric_string :: "string \<Rightarrow> bool" where
  "is_numeric_string s =
     (let t = trim_by is_js_space s in
      if t = [] then True
      else if take 2 t = ''0x'' \<or> take 2 t = ''0X'' then all_in ''0123456789abcdefABCDEF'' (drop 2 t)
      else if take 2 t = ''0o'' \<or> take 2 t = ''0O'' then all_in ''01234567'' (drop 2 t)
      else if take 2 t = ''0b'' \<or> take 2 t = ''0B'' then all_in ''01'' (drop 2 t)
      else strip_sign t = ''Infinity'' \<or> is_unsigned_decimal (strip_sign t))"

fun isNaN :: "jsval \<Rightarrow> bool" where
  "isNaN JUndefined = True"
| "isNaN JNull = False"
| "isNaN (JBool b) = False"
| "isNaN (JNum n) = False"
| "isNaN JNaN = True"
| "isNaN (JStr s) = (\<not> is_numeric_string s)"

section \<open>Errors\<close>

text \<open>
  The error classes of \<^verbatim>\<open>expressError.js\<close>, each with its message; \<open>ExpressError\<close>
  carries the status it was built with. \<open>DbError\<close> stands for any fault raised by the
  store itself.
\<close>

datatype error =
    ExpressError string nat
  | NotFoundError string
  | BadRequestError string
  | DbError

text \<open>
  Modelled from the spec: the status mapping of \<^verbatim>\<open>expressError.js\<close> and of the error
  handler of \<^verbatim>\<open>app.js\<close>, neither of which is among the sources. A bad request is
  answered with 400, not-found with 404, any other fault with 500.
\<close>

fun status_of :: "error \<Rightarrow> nat" where
  "status_of (ExpressError m s) = s"
| "status_of (NotFoundError m) = 404"
| "status_of (BadRequestError m) = 400"
| "status_of DbError = 500"

fun is_NotFound :: "error \<Rightarrow> bool" where
  "is_NotFound (NotFoundError m) = True"
| "is_NotFound e = False"

fun is_BadRequest :: "error \<Rightarrow> bool" where
  "is_BadRequest (BadRequestError m) = True"
| "is_BadRequest e = False"

section \<open>Statements sent to the store\<close>

record job =
  job_id :: int
  job_title :: string
  salary :: "int option"
  equity :: "rat option"
  company_handle :: string

text \<open>
  The statement texts of \<^verbatim>\<open>models/job.js\<close>, by their clauses. Every \<open>SELECT\<close> and
  \<open>RETURNING\<close> list there names the same five columns, so a returned row is a \<open>job\<close>.
  \<^item> \<open>TitleLike n\<close> is \<^verbatim>\<open>LOWER(jobs.title) LIKE $n\<close>, \<open>SalaryGe n\<close> is
    \<^verbatim>\<open>salary >= $n\<close>, \<open>EquityNe n\<close> is \<^verbatim>\<open>equity != $n\<close>;
  \<^item> \<open>SelectJobs cs ob\<close> is \<^verbatim>\<open>SELECT ... FROM jobs WHERE c1 AND ... ORDER BY ob\<close>
    (no \<open>WHERE\<close> for an empty \<open>cs\<close>);
  \<^item> \<open>SelectById\<close> is \<^verbatim>\<open>SELECT ... FROM jobs WHERE id = $1\<close>;
  \<^item> \<open>UpdateJobs setCols idVarIdx\<close> is
    \<^verbatim>\<open>UPDATE jobs SET ${setCols} WHERE id = ${idVarIdx} RETURNING ...\<close>, with the two
    interpolated strings;
  \<^item> \<open>DeleteById\<close> is \<^verbatim>\<open>DELETE FROM jobs WHERE id = $1 RETURNING id\<close>.
\<close>

datatype cond = TitleLike nat | SalaryGe nat | EquityNe nat

datatype order_by = OrderByCompanyHandle | OrderBySalaryDesc

datatype stmt =
    SelectJobs "cond list" order_by
  | SelectById
  | UpdateJobs string string
  | DeleteById

text \<open>
  \<^verbatim>\<open>db.query(text, params)\<close>: the store is a collaborator, so the model takes it as a
  parameter that maps a statement, its parameters and the store's state to rows or a
  fault, and the new state.
\<close>

type_synonym 'st db = "stmt \<Rightarrow> jsval list \<Rightarrow> 'st \<Rightarrow> (error + job list) \<times> 'st"

section \<open>The partial-update builder\<close>

record update_sql =
  setCols :: string
  values' :: "jsval list"

definition column :: "(string \<rightharpoonup> string) \<Rightarrow> string \<Rightarrow> string" where
  "column jsToSql colName = (case jsToSql colName of Some c \<Rightarrow> c | None \<Rightarrow> colName)"

fun join :: "string \<Rightarrow> string list \<Rightarrow> string" where
  "join sep [] = []"
| "join sep [x] = x"
| "join sep (x # y # ys) = x @ sep @ join sep (y # ys)"

fun setFragments :: "(string \<rightharpoonup> string) \<Rightarrow> nat \<Rightarrow> string list \<Rightarrow> string list" where
  "setFragments jsToSql idx [] = []"
| "setFragments jsToSql idx (colName # keys) =
     ([CHR 0x22] @ column jsToSql colName @ [CHR 0x22] @ ''=$'' @ show_nat (idx + 1))
       # setFragments jsToSql (idx + 1) keys"

text \<open>
  Modelled from the spec: \<^verbatim>\<open>sqlForPartialUpdate\<close> of \<^verbatim>\<open>helpers/sql.js\<close>, of which
  only the test is among the sources. An object is the list of its entries in key order.
  With no key the builder fails with a bad-request error (the spec does not give its
  message). Otherwise it walks the keys in order with a zero-based index, resolves each
  column through the alias map, falling back to the key, and emits the column in double
  quotes, \<open>=\<close>, and the placeholder \<open>$\<close> followed by the index plus one; the fragments
  are joined with a comma and a blank, as the test expects, and the values are the
  object's values in the same order.
\<close>

definition sqlForPartialUpdate ::
    "(string \<times> jsval) list \<Rightarrow> (string \<rightharpoonup> string) \<Rightarrow> error + update_sql" where
  "sqlForPartialUpdate dataToUpdate jsToSql =
     (let keys = map fst dataToUpdate in
      if length keys = 0 then Inl (BadRequestError ''No data'')
      else Inr \<lparr>setCols = join '', '' (setFragments jsToSql 0 keys),
                values' = map snd dataToUpdate\<rparr>)"

section \<open>The job model\<close>

text \<open>Running one statement and handing its rows to a continuation; a fault propagates.\<close>

definition query_then ::
    "'st db \<Rightarrow> stmt \<Rightarrow> jsval list \<Rightarrow> 'st \<Rightarrow> (job list \<Rightarrow> error + 'a) \<Rightarrow> (error + 'a) \<times> 'st" where
  "query_then db q ps st k =
     (case db q ps st of
        (Inl e, st') \<Rightarrow> (Inl e, st')
      | (Inr rows, st') \<Rightarrow> (k rows, st'))"

definition Job_findAll :: "'st db \<Rightarrow> 'st \<Rightarrow> (error + job list) \<times> 'st" where
  "Job_findAll db st = query_then db (SelectJobs [] OrderByCompanyHandle) [] st Inr"

record criteria =
  title :: jsval
  minSalary :: jsval
  hasEquity :: jsval

text \<open>
  The seven branches of \<^verbatim>\<open>findAllFiltered\<close> in the order of the source, each with the
  statement and the parameter array it passes to \<^verbatim>\<open>db.query\<close>; \<open>None\<close> when no
  branch is taken.
\<close>

definition findAllFiltered_query :: "criteria \<Rightarrow> (stmt \<times> jsval list) option" where
  "findAllFiltered_query c =
     (let t = title c; m = minSalary c; h = hasEquity c in
      if truthy t \<and> truthy m \<and> truthy h then
        Some (SelectJobs [TitleLike 1, SalaryGe 2, EquityNe 3] OrderBySalaryDesc,
              [JStr (''%'' @ js_String t @ ''%''), m, JNum 0])
      else if truthy t \<and> \<not> truthy m \<and> \<not> truthy h then
        Some (SelectJobs [TitleLike 1] OrderBySalaryDesc,
              [JStr (''%'' @ js_String t @ ''%'')])
      else if truthy t \<and> truthy m \<and> \<not> truthy h then
        Some (SelectJobs [TitleLike 1, SalaryGe 2] OrderBySalaryDesc,
              [JStr (''%'' @ js_String t @ ''%''), m])
      else if truthy t \<and> \<not> truthy m \<and> truthy h then
        Some (SelectJobs [TitleLike 1, EquityNe 2] OrderBySalaryDesc,
              [JStr (''%'' @ js_String t @ ''%''), JNum 0])
      else if \<not> truthy t \<and> truthy m \<and> truthy h then
        Some (SelectJobs [SalaryGe 1, EquityNe 2] OrderBySalaryDesc, [m, JNum 0])
      else if \<not> truthy t \<and> truthy m \<and> \<not> truthy h then
        Some (SelectJobs [SalaryGe 1] OrderBySalaryDesc, [m])
      else if \<not> truthy t \<and> \<not> truthy m \<and> truthy h then
        Some (SelectJobs [EquityNe 1] OrderBySalaryDesc, [JNum 0])
      else None)"

text \<open>
  \<^verbatim>\<open>findAllFiltered\<close> returns the rows of the branch taken, and \<open>undefined\<close>
  (\<open>None\<close>), without a query, when it takes none.
\<close>

definition Job_findAllFiltered ::
    "'st db \<Rightarrow> criteria \<Rightarrow> 'st \<Rightarrow> (error + job list option) \<times> 'st" where
  "Job_findAllFiltered db c st =
     (case findAllFiltered_query c of
        None \<Rightarrow> (Inr None, st)
      | Some (q, ps) \<Rightarrow> query_then db q ps st (\<lambda>rows. Inr (Some rows)))"

definition Job_get :: "'st db \<Rightarrow> jsval \<Rightarrow> 'st \<Rightarrow> (error + job) \<times> 'st" where
  "Job_get db ident st =
     (if isNaN ident then (Inl (NotFoundError (''Invalid Job ID: '' @ js_String ident)), st)
      else query_then db SelectById [ident] st
        (\<lambda>rows. case rows of
           [] \<Rightarrow> Inl (NotFoundError (''Invalid Job ID: '' @ js_String ident))
         | job # _ \<Rightarrow> Inr job))"

definition job_aliases :: "string \<rightharpoonup> string" where
  "job_aliases =
     [''title'' \<mapsto> ''title'', ''salary'' \<mapsto> ''salary'', ''equity'' \<mapsto> ''equity'']"

definition Job_update ::
    "'st db \<Rightarrow> jsval \<Rightarrow> (string \<times> jsval) list \<Rightarrow> 'st \<Rightarrow> (error + job) \<times> 'st" where
  "Job_update db ident data st =
     (if isNaN ident then (Inl (NotFoundError (''Invalid Job ID: '' @ js_String ident)), st)
      else case sqlForPartialUpdate data job_aliases of
        Inl e \<Rightarrow> (Inl e, st)
      | Inr r \<Rightarrow>
          (let idVarIdx = ''$'' @ show_nat (length (values' r) + 1) in
           query_then db (UpdateJobs (setCols r) idVarIdx) (values' r @ [ident]) st
             (\<lambda>rows. case rows of
                [] \<Rightarrow> Inl (NotFoundError (''Invalid Job ID: '' @ js_String ident))
              | job # _ \<Rightarrow> Inr job)))"

text \<open>\<^verbatim>\<open>remove\<close> returns the row of \<^verbatim>\<open>RETURNING id\<close>, of which only the id is read.\<close>

definition Job_remove :: "'st db \<Rightarrow> jsval \<Rightarrow> 'st \<Rightarrow> (error + int) \<times> 'st" where
  "Job_remove db ident st =
     (if isNaN ident then (Inl (NotFoundError (''Invalid Job ID: '' @ js_String ident)), st)
      else query_then db DeleteById [ident] st
        (\<lambda>rows. case rows of
           [] \<Rightarrow> Inl (NotFoundError (''No job with ID: '' @ js_String ident))
         | job # _ \<Rightarrow> Inr (job_id job)))"

section \<open>The route \<^verbatim>\<open>GET /jobs\<close>\<close>

text \<open>
  \<^verbatim>\<open>req.query\<close> is the list of the query string's keys with their values, which the
  query parser delivers as strings. Destructuring reads a key that is absent as
  \<open>undefined\<close>.
\<close>

definition query_prop :: "(string \<times> string) list \<Rightarrow> string \<Rightarrow> jsval" where
  "query_prop obj k = (case map_of obj k of None \<Rightarrow> JUndefined | Some v \<Rightarrow> JStr v)"

definition criteria_of :: "(string \<times> string) list \<Rightarrow> criteria" where
  "criteria_of q =
     \<lparr>title = query_prop q ''title'', minSalary = query_prop q ''minSalary'', hasEquity = query_prop q ''hasEquity''\<rparr>"

definition allowedFields :: "string list" where
  "allowedFields = [''title'', ''minSalary'', ''hasEquity'']"

fun check_fields :: "string list \<Rightarrow> error option" where
  "check_fields [] = None"
| "check_fields (v # vs) =
     (if v \<notin> set allowedFields
      then Some (ExpressError ''You may only filter on title, salary and equity'' 400)
      else check_fields vs)"

text \<open>
  The result is the \<open>jobs\<close> value of the JSON response (\<open>None\<close> when it is
  \<open>undefined\<close>), or the error passed on. The two tests on the number of keys cover every
  case; the source has no branch after them, and the last one here is never taken.
\<close>

definition route_get_jobs ::
    "'st db \<Rightarrow> (string \<times> string) list \<Rightarrow> 'st \<Rightarrow> (error + job list option) \<times> 'st" where
  "route_get_jobs db q st =
     (let filterFields = map fst q in
      if length filterFields = 0 then
        (case Job_findAll db st of
           (Inl e, st') \<Rightarrow> (Inl e, st')
         | (Inr jobs, st') \<Rightarrow> (Inr (Some jobs), st'))
      else if length filterFields > 0 then
        (case check_fields filterFields of
           Some e \<Rightarrow> (Inl e, st)
         | None \<Rightarrow> Job_findAllFiltered db (criteria_of q) st)
      else (Inr None, st))"

section \<open>A model of the store\<close>

text \<open>
  The relational store behind \<^verbatim>\<open>db.query\<close> is not part of the sources. This section
  gives it a meaning for the statements above, over a table of \<open>job\<close> rows, so that
  claims about the rows returned and changed can be stated. It follows PostgreSQL as
  driven by node-postgres: a parameter travels as text (\<open>null\<close> and \<open>undefined\<close>
  as \<open>NULL\<close>) and is read in the type of the column it is compared with or assigned to;
  a value that cannot be read is a fault. Constraints of the schema other than the
  column types and \<open>NOT NULL\<close> on id, title and company handle are not modelled.
\<close>

definition bind_err :: "error + 'a \<Rightarrow> ('a \<Rightarrow> error + 'b) \<Rightarrow> error + 'b" where
  "bind_err r f = (case r of Inl e \<Rightarrow> Inl e | Inr x \<Rightarrow> f x)"

fun map_err :: "('a \<Rightarrow> error + 'b) \<Rightarrow> 'a list \<Rightarrow> error + 'b list" where
  "map_err f [] = Inr []"
| "map_err f (x # xs) = bind_err (f x) (\<lambda>y. bind_err (map_err f xs) (\<lambda>ys. Inr (y # ys)))"

definition param :: "jsval list \<Rightarrow> nat \<Rightarrow> error + jsval" where
  "param ps n = (if 1 \<le> n \<and> n \<le> length ps then Inr (ps ! (n - 1)) else Inl DbError)"

definition param_text :: "jsval \<Rightarrow> string option" where
  "param_text v = (case v of JUndefined \<Rightarrow> None | JNull \<Rightarrow> None | _ \<Rightarrow> Some (js_String v))"

definition digit_val :: "char \<Rightarrow> nat" where
  "digit_val c = of_char c - 48"

definition digits_val :: "string \<Rightarrow> nat" where
  "digits_val ds = foldl (\<lambda>a c. 10 * a + digit_val c) 0 ds"

definition is_pg_space :: "char \<Rightarrow> bool" where
  "is_pg_space c = (c \<in> set [CHR 0x09, CHR 0x0A, CHR 0x0B, CHR 0x0C, CHR 0x0D, CHR 0x20])"

text \<open>Input of a 32-bit \<open>integer\<close>: an optionally signed run of digits, blanks around it.\<close>

definition integer_in :: "string \<Rightarrow> int option" where
  "integer_in s =
     (let t = trim_by is_pg_space s; u = strip_sign t;
          n = (if take 1 t = ''-'' then - int (digits_val u) else int (digits_val u)) in
      if u \<noteq> [] \<and> list_all is_digit u \<and> - (2 ^ 31) \<le> n \<and> n < 2 ^ 31 then Some n else None)"

text \<open>
  Input of a \<open>numeric\<close>: an optionally signed decimal with an optional fraction
  (exponents and the special values are left out: they are rejected here).
\<close>

definition numeric_in :: "string \<Rightarrow> rat option" where
  "numeric_in s =
     (let t = trim_by is_pg_space s; u = strip_sign t;
          ip = takeWhile is_digit u; r1 = dropWhile is_digit u;
          fp = drop 1 r1;
          v = (of_nat (digits_val ip) + of_nat (digits_val fp) / 10 ^ length fp :: rat) in
      if (ip \<noteq> [] \<or> fp \<noteq> []) \<and> (r1 = [] \<or> take 1 r1 = ''.'') \<and> list_all is_digit fp
      then Some (if take 1 t = ''-'' then - v else v) else None)"

definition pg_integer :: "jsval \<Rightarrow> error + int option" where
  "pg_integer v =
     (case param_text v of
        None \<Rightarrow> Inr None
      | Some s \<Rightarrow> (case integer_in s of None \<Rightarrow> Inl DbError | Some n \<Rightarrow> Inr (Some n)))"

definition pg_numeric :: "jsval \<Rightarrow> error + rat option" where
  "pg_numeric v =
     (case param_text v of
        None \<Rightarrow> Inr None
      | Some s \<Rightarrow> (case numeric_in s of None \<Rightarrow> Inl DbError | Some r \<Rightarrow> Inr (Some r)))"

text \<open>\<^verbatim>\<open>lower\<close> on the letters A to Z; other characters are kept.\<close>

definition lower_char :: "char \<Rightarrow> char" where
  "lower_char c =
     (case map_of (zip ''ABCDEFGHIJKLMNOPQRSTUVWXYZ'' ''abcdefghijklmnopqrstuvwxyz'') c of
        Some d \<Rightarrow> d | None \<Rightarrow> c)"

definition lower :: "string \<Rightarrow> string" where
  "lower s = map lower_char s"

text \<open>
  \<^verbatim>\<open>text LIKE pattern\<close>: \<open>%\<close> matches any run of characters, \<open>_\<close> any one
  character, a backslash makes the next pattern character literal (a pattern that ends
  in a lone backslash matches nothing here).
\<close>

fun like :: "string \<Rightarrow> string \<Rightarrow> bool" where
  "like [] s = (s = [])"
| "like (p # ps) s =
     (if p = CHR ''%'' then
        like ps s \<or> (case s of [] \<Rightarrow> False | c # cs \<Rightarrow> like (p # ps) cs)
      else if p = CHR ''_'' then
        (case s of [] \<Rightarrow> False | c # cs \<Rightarrow> like ps cs)
      else if p = CHR 0x5C then
        (case ps of [] \<Rightarrow> False
         | q # qs \<Rightarrow> (case s of [] \<Rightarrow> False | c # cs \<Rightarrow> c = q \<and> like qs cs))
      else (case s of [] \<Rightarrow> False | c # cs \<Rightarrow> c = p \<and> like ps cs))"

text \<open>A condition with its parameter read in the column's type; \<open>None\<close> is \<open>NULL\<close>.\<close>

datatype rcond = RTitleLike "string option" | RSalaryGe "int option" | REquityNe "rat option"

fun resolve_cond :: "jsval list \<Rightarrow> cond \<Rightarrow> error + rcond" where
  "resolve_cond ps (TitleLike n) = bind_err (param ps n) (\<lambda>v. Inr (RTitleLike (param_text v)))"
| "resolve_cond ps (SalaryGe n) =
     bind_err (param ps n) (\<lambda>v. bind_err (pg_integer v) (\<lambda>x. Inr (RSalaryGe x)))"
| "resolve_cond ps (EquityNe n) =
     bind_err (param ps n) (\<lambda>v. bind_err (pg_numeric v) (\<lambda>x. Inr (REquityNe x)))"

text \<open>A row is kept when the condition is true; a comparison with \<open>NULL\<close> is not.\<close>

fun holds :: "rcond \<Rightarrow> job \<Rightarrow> bool" where
  "holds (RTitleLike p) j = (case p of None \<Rightarrow> False | Some pat \<Rightarrow> like pat (lower (job_title j)))"
| "holds (RSalaryGe n) j =
     (case n of None \<Rightarrow> False | Some lo \<Rightarrow> (case salary j of None \<Rightarrow> False | Some s \<Rightarrow> s \<ge> lo))"
| "holds (REquityNe r) j =
     (case r of None \<Rightarrow> False | Some z \<Rightarrow> (case equity j of None \<Rightarrow> False | Some e \<Rightarrow> e \<noteq> z))"

subsection \<open>Ordering\<close>

fun insert_by :: "('a \<Rightarrow> 'a \<Rightarrow> bool) \<Rightarrow> 'a \<Rightarrow> 'a list \<Rightarrow> 'a list" where
  "insert_by le x [] = [x]"
| "insert_by le x (y # ys) = (if le x y then x # y # ys else y # insert_by le x ys)"

definition sort_by :: "('a \<Rightarrow> 'a \<Rightarrow> bool) \<Rightarrow> 'a list \<Rightarrow> 'a list" where
  "sort_by le xs = foldr (insert_by le) xs []"

fun str_le :: "string \<Rightarrow> string \<Rightarrow> bool" where
  "str_le [] t = True"
| "str_le (c # cs) [] = False"
| "str_le (c # cs) (d # ds) = ((of_char c :: nat) < of_char d \<or> (c = d \<and> str_le cs ds))"

text \<open>
  \<^verbatim>\<open>ORDER BY salary DESC\<close> puts rows without a salary first, then larger salaries
  before smaller; \<^verbatim>\<open>ORDER BY company_handle\<close> is ascending, here by code unit.
\<close>

fun order_le :: "order_by \<Rightarrow> job \<Rightarrow> job \<Rightarrow> bool" where
  "order_le OrderBySalaryDesc a b =
     (case salary a of None \<Rightarrow> True
      | Some x \<Rightarrow> (case salary b of None \<Rightarrow> False | Some y \<Rightarrow> x \<ge> y))"
| "order_le OrderByCompanyHandle a b = str_le (company_handle a) (company_handle b)"

subsection \<open>The \<open>SET\<close> clause\<close>

text \<open>
  The clause is read in the shape the builder writes it: assignments
  \<^verbatim>\<open>"column"=$n\<close> separated by a comma and a blank.
\<close>

definition not_quote :: "char \<Rightarrow> bool" where
  "not_quote c = (c \<noteq> CHR 0x22)"

function parse_set :: "string \<Rightarrow> (string \<times> nat) list option" where
  "parse_set s =
     (case s of
        [] \<Rightarrow> None
      | c # r \<Rightarrow>
          if c \<noteq> CHR 0x22 \<or> take 3 (dropWhile not_quote r) \<noteq> [CHR 0x22, CHR ''='', CHR ''$'']
             \<or> takeWhile is_digit (drop 3 (dropWhile not_quote r)) = []
          then None
          else if dropWhile is_digit (drop 3 (dropWhile not_quote r)) = []
          then Some [(takeWhile not_quote r,
                      digits_val (takeWhile is_digit (drop 3 (dropWhile not_quote r))))]
          else if take 2 (dropWhile is_digit (drop 3 (dropWhile not_quote r))) = '', ''
          then map_option
                 ((#) (takeWhile not_quote r,
                       digits_val (takeWhile is_digit (drop 3 (dropWhile not_quote r)))))
                 (parse_set (drop 2 (dropWhile is_digit (drop 3 (dropWhile not_quote r)))))
          else None)"
  by pat_completeness auto
termination
proof (relation "measure length")
  show "wf (measure length)" by simp
next
  fix s :: string and c r
  assume "s = c # r"
  have "length (dropWhile is_digit (drop 3 (dropWhile not_quote r)))
          \<le> length (drop 3 (dropWhile not_quote r))"
    by (rule length_dropWhile_le)
  also have "\<dots> \<le> length (dropWhile not_quote r)"
    by simp
  also have "\<dots> \<le> length r"
    by (rule length_dropWhile_le)
  finally have "length (dropWhile is_digit (drop 3 (dropWhile not_quote r))) \<le> length r" .
  then show "(drop 2 (dropWhile is_digit (drop 3 (dropWhile not_quote r))), s) \<in> measure length"
    using \<open>s = c # r\<close> by simp
qed

declare parse_set.simps [simp del]

definition parse_placeholder :: "string \<Rightarrow> nat option" where
  "parse_placeholder s =
     (case s of [] \<Rightarrow> None
      | c # ds \<Rightarrow> if c = CHR ''$'' \<and> ds \<noteq> [] \<and> list_all is_digit ds
                  then Some (digits_val ds) else None)"

text \<open>One assignment, with its parameter read in the type of the column.\<close>

definition assign :: "string \<Rightarrow> jsval \<Rightarrow> error + (job \<Rightarrow> job)" where
  "assign col v =
     (if col = ''title'' then
        (case param_text v of None \<Rightarrow> Inl DbError | Some s \<Rightarrow> Inr (\<lambda>j. j\<lparr>job_title := s\<rparr>))
      else if col = ''salary'' then
        bind_err (pg_integer v) (\<lambda>n. Inr (\<lambda>j. j\<lparr>salary := n\<rparr>))
      else if col = ''equity'' then
        bind_err (pg_numeric v) (\<lambda>r. Inr (\<lambda>j. j\<lparr>equity := r\<rparr>))
      else if col = ''id'' then
        bind_err (pg_integer v)
          (\<lambda>n. case n of None \<Rightarrow> Inl DbError | Some i \<Rightarrow> Inr (\<lambda>j. j\<lparr>job_id := i\<rparr>))
      else if col = ''company_handle'' then
        (case param_text v of None \<Rightarrow> Inl DbError | Some s \<Rightarrow> Inr (\<lambda>j. j\<lparr>company_handle := s\<rparr>))
      else Inl DbError)"

definition resolve_set :: "jsval list \<Rightarrow> (string \<times> nat) list \<Rightarrow> error + (job \<Rightarrow> job) list" where
  "resolve_set ps asg = map_err (\<lambda>(col, n). bind_err (param ps n) (assign col)) asg"

definition apply_set :: "(job \<Rightarrow> job) list \<Rightarrow> job \<Rightarrow> job" where
  "apply_set fs j = foldl (\<lambda>r f. f r) j fs"

definition has_id :: "int option \<Rightarrow> job \<Rightarrow> bool" where
  "has_id n j = (n = Some (job_id j))"

subsection \<open>Running a statement\<close>

fun pg_query :: "job list db" where
  "pg_query (SelectJobs cs ob) ps tbl =
     (case map_err (resolve_cond ps) cs of
        Inl e \<Rightarrow> (Inl e, tbl)
      | Inr rs \<Rightarrow>
          (Inr (sort_by (order_le ob) (filter (\<lambda>j. list_all (\<lambda>r. holds r j) rs) tbl)), tbl))"
| "pg_query SelectById ps tbl =
     (case bind_err (param ps 1) pg_integer of
        Inl e \<Rightarrow> (Inl e, tbl)
      | Inr n \<Rightarrow> (Inr (filter (has_id n) tbl), tbl))"
| "pg_query (UpdateJobs sc iv) ps tbl =
     (case parse_set sc of
        None \<Rightarrow> (Inl DbError, tbl)
      | Some asg \<Rightarrow>
          (case parse_placeholder iv of
             None \<Rightarrow> (Inl DbError, tbl)
           | Some k \<Rightarrow>
               (case bind_err (param ps k) pg_integer of
                  Inl e \<Rightarrow> (Inl e, tbl)
                | Inr n \<Rightarrow>
                    (case (if distinct (map fst asg) then resolve_set ps asg else Inl DbError) of
                       Inl e \<Rightarrow> (Inl e, tbl)
                     | Inr fs \<Rightarrow>
                         (Inr (map (apply_set fs) (filter (has_id n) tbl)),
                          map (\<lambda>j. if has_id n j then apply_set fs j else j) tbl)))))"
| "pg_query DeleteById ps tbl =
     (case bind_err (param ps 1) pg_integer of
        Inl e \<Rightarrow> (Inl e, tbl)
      | Inr n \<Rightarrow> (Inr (filter (has_id n) tbl), filter (\<lambda>j. \<not> has_id n j) tbl))"

section \<open>Rows of the test database\<close>

text \<open>
  The three jobs the model and route tests expect (their ids are generated; 1 to 3 here).
\<close>

definition job_J1 :: job where
  "job_J1 = \<lparr>job_id = 1, job_title = ''J1'', salary = Some 100000, equity = Some 0,
              company_handle = ''c1''\<rparr>"

definition job_J2 :: job where
  "job_J2 = \<lparr>job_id = 2, job_title = ''J2'', salary = Some 200000, equity = Some (2 / 10),
              company_handle = ''c1''\<rparr>"

definition job_J3 :: job where
  "job_J3 = \<lparr>job_id = 3, job_title = ''J3'', salary = Some 300000, equity = Some (3 / 10),
              company_handle = ''c2''\<rparr>"

definition test_jobs :: "job list" where
  "test_jobs = [job_J1, job_J2, job_J3]"

section \<open>The filter, criterion by criterion\<close>

text \<open>
  The filter as the written design describes it, for comparison with the seven branches:
  one entry per criterion that is truthy, in the order title, minimum salary, equity, each
  with its parameter; the conditions are numbered from 1 in that order, and there is no
  query when no criterion is truthy.
\<close>

definition criterion_parts :: "criteria \<Rightarrow> ((nat \<Rightarrow> cond) \<times> jsval) list" where
  "criterion_parts c =
     (if truthy (title c) then [(TitleLike, JStr (''%'' @ js_String (title c) @ ''%''))] else [])
     @ (if truthy (minSalary c) then [(SalaryGe, minSalary c)] else [])
     @ (if truthy (hasEquity c) then [(EquityNe, JNum 0)] else [])"

fun number_from :: "nat \<Rightarrow> (nat \<Rightarrow> cond) list \<Rightarrow> cond list" where
  "number_from n [] = []"
| "number_from n (f # fs) = f n # number_from (Suc n) fs"

definition composed_query :: "criteria \<Rightarrow> (stmt \<times> jsval list) option" where
  "composed_query c =
     (let parts = criterion_parts c in
      if parts = [] then None
      else Some (SelectJobs (number_from 1 (map fst parts)) OrderBySalaryDesc, map snd parts))"


section \<open>Evaluation\<close>

text \<open>The definitions that the simplifier unfolds to run the model on concrete inputs.\<close>

lemmas ev = Job_findAllFiltered_def findAllFiltered_query_def query_then_def Let_def
  route_get_jobs_def criteria_of_def query_prop_def allowedFields_def Job_update_def Job_get_def Job_remove_def
  Job_findAll_def sqlForPartialUpdate_def job_aliases_def column_def
  bind_err_def param_def param_text_def pg_integer_def pg_numeric_def integer_in_def numeric_in_def
  trim_by_def is_pg_space_def is_js_space_def strip_sign_def is_digit_def digits_val_def digit_val_def
  lower_def lower_char_def sort_by_def has_id_def test_jobs_def job_J1_def job_J2_def job_J3_def
  is_numeric_string_def is_unsigned_decimal_def is_exponent_def all_in_def
  show_int_def digit_char_def parse_placeholder_def resolve_set_def assign_def apply_set_def
  not_quote_def

section \<open>The filter query\<close>

lemma findAllFiltered_query_composed: "findAllFiltered_query c = composed_query c"
  by (simp add: findAllFiltered_query_def composed_query_def criterion_parts_def Let_def)

lemma findAllFiltered_query_order:
  "findAllFiltered_query c = Some (q, ps) \<Longrightarrow> \<exists>cs. q = SelectJobs cs OrderBySalaryDesc"
  by (auto simp: findAllFiltered_query_composed composed_query_def Let_def split: if_splits)

lemma findAllFiltered_query_some:
  "truthy (title c) \<or> truthy (minSalary c) \<or> truthy (hasEquity c) \<Longrightarrow>
   \<exists>cs ps. findAllFiltered_query c = Some (SelectJobs cs OrderBySalaryDesc, ps)"
  by (auto simp: findAllFiltered_query_def Let_def)

lemma findAllFiltered_query_salary:
  "truthy (minSalary c) \<Longrightarrow>
   \<exists>cs ps k. findAllFiltered_query c = Some (SelectJobs cs OrderBySalaryDesc, ps)
      \<and> length ps = length cs \<and> k < length cs \<and> cs ! k = SalaryGe (k + 1)
      \<and> ps ! k = minSalary c"
proof -
  assume m: "truthy (minSalary c)"
  show ?thesis
  proof (cases "truthy (title c)")
    case True
    with m have "\<exists>cs ps. findAllFiltered_query c = Some (SelectJobs cs OrderBySalaryDesc, ps)
      \<and> length ps = length cs \<and> 1 < length cs \<and> cs ! 1 = SalaryGe (1 + 1)
      \<and> ps ! 1 = minSalary c"
      by (cases "truthy (hasEquity c)") (simp_all add: findAllFiltered_query_def)
    then show ?thesis by blast
  next
    case False
    with m have "\<exists>cs ps. findAllFiltered_query c = Some (SelectJobs cs OrderBySalaryDesc, ps)
      \<and> length ps = length cs \<and> 0 < length cs \<and> cs ! 0 = SalaryGe (0 + 1)
      \<and> ps ! 0 = minSalary c"
      by (cases "truthy (hasEquity c)") (simp_all add: findAllFiltered_query_def)
    then show ?thesis by blast
  qed
qed

lemma findAllFiltered_query_equity:
  "truthy (hasEquity c) \<Longrightarrow>
   \<exists>cs ps. findAllFiltered_query c
            = Some (SelectJobs (cs @ [EquityNe (length cs + 1)]) OrderBySalaryDesc, ps @ [JNum 0])
          \<and> length ps = length cs \<and> (\<forall>n. EquityNe n \<notin> set cs)"
proof -
  assume h: "truthy (hasEquity c)"
  consider (tm) "truthy (title c)" "truthy (minSalary c)"
    | (t) "truthy (title c)" "\<not> truthy (minSalary c)"
    | (m) "\<not> truthy (title c)" "truthy (minSalary c)"
    | (n) "\<not> truthy (title c)" "\<not> truthy (minSalary c)"
    by blast
  then show ?thesis
  proof cases
    case tm
    with h have "findAllFiltered_query c
        = Some (SelectJobs ([TitleLike 1, SalaryGe 2] @ [EquityNe (length [TitleLike 1, SalaryGe 2] + 1)])
                  OrderBySalaryDesc,
                [JStr (''%'' @ js_String (title c) @ ''%''), minSalary c] @ [JNum 0])"
      by (simp add: findAllFiltered_query_def)
    then show ?thesis by (intro exI conjI) (assumption, simp_all)
  next
    case t
    with h have "findAllFiltered_query c
        = Some (SelectJobs ([TitleLike 1] @ [EquityNe (length [TitleLike 1] + 1)]) OrderBySalaryDesc,
                [JStr (''%'' @ js_String (title c) @ ''%'')] @ [JNum 0])"
      by (simp add: findAllFiltered_query_def)
    then show ?thesis by (intro exI conjI) (assumption, simp_all)
  next
    case m
    with h have "findAllFiltered_query c
        = Some (SelectJobs ([SalaryGe 1] @ [EquityNe (length [SalaryGe 1] + 1)]) OrderBySalaryDesc,
                [minSalary c] @ [JNum 0])"
      by (simp add: findAllFiltered_query_def)
    then show ?thesis by (intro exI conjI) (assumption, simp_all)
  next
    case n
    with h have "findAllFiltered_query c
        = Some (SelectJobs ([] @ [EquityNe (length ([] :: cond list) + 1)]) OrderBySalaryDesc,
                [] @ [JNum 0])"
      by (simp add: findAllFiltered_query_def)
    then show ?thesis by (intro exI conjI) (assumption, simp_all)
  qed
qed

lemma findAllFiltered_query_no_equity:
  "\<not> truthy (hasEquity c) \<Longrightarrow> findAllFiltered_query c = Some (SelectJobs cs ob, ps)
   \<Longrightarrow> EquityNe n \<notin> set cs"
  by (auto simp: findAllFiltered_query_def Let_def split: if_splits)

section \<open>The route\<close>

lemma check_fields_allowed:
  "set fs \<subseteq> set allowedFields \<Longrightarrow> check_fields fs = None"
  by (induction fs) simp_all

lemma route_get_jobs_filtered:
  "q \<noteq> [] \<Longrightarrow> set (map fst q) \<subseteq> set allowedFields
   \<Longrightarrow> route_get_jobs db q st = Job_findAllFiltered db (criteria_of q) st"
  by (simp add: route_get_jobs_def check_fields_allowed Let_def)

lemma map_of_all_empty:
  "\<forall>kv\<in>set q. snd kv = [] \<Longrightarrow> map_of q k = None \<or> map_of q k = Some []"
  by (induction q) auto

lemma query_prop_all_empty:
  "\<forall>kv\<in>set q. snd kv = [] \<Longrightarrow> \<not> truthy (query_prop q k)"
  using map_of_all_empty[of q k] by (auto simp: query_prop_def)

section \<open>Rows returned by the store\<close>

lemma query_then_rows:
  "db q ps st = (Inr rows, st') \<Longrightarrow> query_then db q ps st k = (k rows, st')"
  by (simp add: query_then_def)

lemma set_insert_by: "set (insert_by le x xs) = insert x (set xs)"
  by (induction xs) auto

lemma set_sort_by: "set (sort_by le xs) = set xs"
  by (induction xs) (simp_all add: sort_by_def set_insert_by)

lemma sorted_insert_by:
  assumes total: "\<And>a b. \<not> le a b \<Longrightarrow> le b a"
    and trans: "\<And>a b c. le a b \<Longrightarrow> le b c \<Longrightarrow> le a c"
  shows "sorted_wrt le xs \<Longrightarrow> sorted_wrt le (insert_by le x xs)"
proof (induction xs)
  case Nil
  then show ?case by simp
next
  case (Cons y ys)
  show ?case
  proof (cases "le x y")
    case True
    with Cons.prems show ?thesis by (auto intro: trans)
  next
    case False
    then have "le y x" by (rule total)
    with False Cons show ?thesis by (auto simp: set_insert_by)
  qed
qed

lemma sorted_sort_by:
  assumes total: "\<And>a b. \<not> le a b \<Longrightarrow> le b a"
    and trans: "\<And>a b c. le a b \<Longrightarrow> le b c \<Longrightarrow> le a c"
  shows "sorted_wrt le (sort_by le xs)"
proof (induction xs)
  case Nil
  show ?case by (simp add: sort_by_def)
next
  case (Cons x xs)
  have "sort_by le (x # xs) = insert_by le x (sort_by le xs)"
    by (simp add: sort_by_def)
  with Cons sorted_insert_by[of le, OF total trans] show ?case by simp
qed

lemma str_le_total: "\<not> str_le a b \<Longrightarrow> str_le b a"
  by (induction a b rule: str_le.induct) auto

lemma str_le_trans: "str_le a b \<Longrightarrow> str_le b c \<Longrightarrow> str_le a c"
proof (induction a arbitrary: b c)
  case Nil
  show ?case by simp
next
  case (Cons x xs)
  from Cons.prems obtain y ys where b: "b = y # ys" by (cases b) auto
  from Cons.prems b obtain z zs where c: "c = z # zs" by (cases c) auto
  from Cons.prems Cons.IH[of ys zs] show ?case unfolding b c by auto
qed

lemma order_le_total: "\<not> order_le ob a b \<Longrightarrow> order_le ob b a"
  by (cases ob) (auto split: option.splits dest: str_le_total)

lemma order_le_trans: "order_le ob a b \<Longrightarrow> order_le ob b c \<Longrightarrow> order_le ob a c"
  by (cases ob) (auto split: option.splits dest: str_le_trans)

lemma sorted_order_le: "sorted_wrt (order_le ob) (sort_by (order_le ob) xs)"
  by (rule sorted_sort_by) (erule order_le_total, erule order_le_trans)

lemma map_err_Inr: "map_err f xs = Inr ys \<Longrightarrow> list_all2 (\<lambda>x y. f x = Inr y) xs ys"
proof (induction xs arbitrary: ys)
  case Nil
  then show ?case by simp
next
  case (Cons x xs)
  then show ?case by (auto simp: bind_err_def split: sum.splits)
qed

lemma pg_select_rows:
  "pg_query (SelectJobs cs ob) ps tbl = (Inr rows, tbl') \<Longrightarrow>
   \<exists>rs. map_err (resolve_cond ps) cs = Inr rs
      \<and> rows = sort_by (order_le ob) (filter (\<lambda>j. list_all (\<lambda>r. holds r j) rs) tbl)
      \<and> tbl' = tbl"
  by (auto split: sum.splits)

lemma param_last: "param (ps @ [v]) (length ps + 1) = Inr v"
  by (simp add: param_def)

lemma pg_numeric_zero: "pg_numeric (JNum 0) = Inr (Some 0)"
  by (simp add: pg_numeric_def param_text_def numeric_in_def show_int_def show_nat.simps
      digit_char_def trim_by_def is_pg_space_def strip_sign_def is_digit_def digits_val_def
      digit_val_def Let_def)

lemma filtered_rows:
  assumes "Job_findAllFiltered pg_query c tbl = (Inr (Some rows), tbl')"
  shows "\<exists>cs ps rs. findAllFiltered_query c = Some (SelectJobs cs OrderBySalaryDesc, ps)
      \<and> map_err (resolve_cond ps) cs = Inr rs
      \<and> rows = sort_by (order_le OrderBySalaryDesc) (filter (\<lambda>j. list_all (\<lambda>r. holds r j) rs) tbl)
      \<and> tbl' = tbl"
proof (cases "findAllFiltered_query c")
  case None
  with assms show ?thesis by (simp add: Job_findAllFiltered_def)
next
  case (Some qp)
  obtain q ps where qp: "qp = (q, ps)" by (cases qp)
  from findAllFiltered_query_order[of c q ps] Some qp
  obtain cs where q: "q = SelectJobs cs OrderBySalaryDesc" by auto
  from assms Some qp q
  have "pg_query (SelectJobs cs OrderBySalaryDesc) ps tbl = (Inr rows, tbl')"
    by (auto simp: Job_findAllFiltered_def query_then_def split: prod.splits sum.splits)
  from pg_select_rows[OF this] Some qp q show ?thesis by auto
qed

lemma equity_rows:
  assumes h: "truthy (hasEquity c)"
    and run: "Job_findAllFiltered pg_query c tbl = (Inr (Some rows), tbl')"
    and j: "j \<in> set rows"
  shows "j \<in> set tbl \<and> (\<exists>e. equity j = Some e \<and> e \<noteq> 0)"
proof -
  from filtered_rows[OF run] obtain cs ps rs where
    q: "findAllFiltered_query c = Some (SelectJobs cs OrderBySalaryDesc, ps)"
    and rs: "map_err (resolve_cond ps) cs = Inr rs"
    and rows: "rows = sort_by (order_le OrderBySalaryDesc)
                        (filter (\<lambda>j. list_all (\<lambda>r. holds r j) rs) tbl)"
    by blast
  from findAllFiltered_query_equity[OF h] q obtain cs' ps' where
    cs: "cs = cs' @ [EquityNe (length cs' + 1)]" and ps: "ps = ps' @ [JNum 0]"
    and len: "length ps' = length cs'"
    by auto
  from map_err_Inr[OF rs] have "list_all2 (\<lambda>x y. resolve_cond ps x = Inr y) cs rs" .
  then obtain rs' r where "rs = rs' @ [r]"
      and "resolve_cond ps (EquityNe (length cs' + 1)) = Inr r"
    unfolding cs by (auto simp: list_all2_append1 list_all2_Cons1)
  moreover have "resolve_cond ps (EquityNe (length cs' + 1)) = Inr (REquityNe (Some 0))"
    unfolding ps using len param_last[of ps' "JNum 0"]
    by (simp add: bind_err_def pg_numeric_zero)
  ultimately have mem: "REquityNe (Some 0) \<in> set rs" by simp
  from j rows have "j \<in> set tbl" and "list_all (\<lambda>r. holds r j) rs"
    by (simp_all add: set_sort_by)
  with mem have "holds (REquityNe (Some 0)) j" unfolding list_all_iff by blast
  with \<open>j \<in> set tbl\<close> show ?thesis by (auto split: option.splits)
qed

lemma equity_only_rows:
  assumes t: "\<not> truthy (title c)" and m: "\<not> truthy (minSalary c)"
    and h: "truthy (hasEquity c)"
  shows "\<exists>rows. Job_findAllFiltered pg_query c tbl = (Inr (Some rows), tbl)
           \<and> set rows = {j \<in> set tbl. \<exists>e. equity j = Some e \<and> e \<noteq> 0}"
proof -
  from t m h have q: "findAllFiltered_query c
      = Some (SelectJobs [EquityNe 1] OrderBySalaryDesc, [JNum 0])"
    by (simp add: findAllFiltered_query_def)
  have pg: "pg_query (SelectJobs [EquityNe 1] OrderBySalaryDesc) [JNum 0] tbl
      = (Inr (sort_by (order_le OrderBySalaryDesc)
                (filter (\<lambda>j. list_all (\<lambda>r. holds r j) [REquityNe (Some 0)]) tbl)), tbl)"
    by (simp add: bind_err_def param_def pg_numeric_zero)
  have "Job_findAllFiltered pg_query c tbl
      = query_then pg_query (SelectJobs [EquityNe 1] OrderBySalaryDesc) [JNum 0] tbl
          (\<lambda>rows. Inr (Some rows))"
    by (simp add: Job_findAllFiltered_def q)
  also have "\<dots> = (Inr (Some (sort_by (order_le OrderBySalaryDesc)
                      (filter (\<lambda>j. list_all (\<lambda>r. holds r j) [REquityNe (Some 0)]) tbl))), tbl)"
    by (rule query_then_rows) (rule pg)
  finally have "Job_findAllFiltered pg_query c tbl
      = (Inr (Some (sort_by (order_le OrderBySalaryDesc)
                      (filter (\<lambda>j. list_all (\<lambda>r. holds r j) [REquityNe (Some 0)]) tbl))), tbl)" .
  moreover have "set (sort_by (order_le OrderBySalaryDesc)
                      (filter (\<lambda>j. list_all (\<lambda>r. holds r j) [REquityNe (Some 0)]) tbl))
      = {j \<in> set tbl. \<exists>e. equity j = Some e \<and> e \<noteq> 0}"
    by (auto simp: set_sort_by split: option.splits)
  ultimately show ?thesis by simp
qed

lemma pg_no_such_id:
  assumes "pg_integer ident = Inr (Some n)" and "\<forall>j\<in>set tbl. job_id j \<noteq> n"
  shows "pg_query SelectById [ident] tbl = (Inr [], tbl)"
    and "pg_query DeleteById [ident] tbl = (Inr [], tbl)"
proof -
  from assms(2) have none: "filter (has_id (Some n)) tbl = []"
    by (auto simp: filter_empty_conv has_id_def)
  from assms(2) have all: "filter (\<lambda>j. \<not> has_id (Some n) j) tbl = tbl"
    by (auto simp: filter_id_conv has_id_def)
  from assms(1) show "pg_query SelectById [ident] tbl = (Inr [], tbl)"
    by (simp add: param_def bind_err_def none)
  from assms(1) show "pg_query DeleteById [ident] tbl = (Inr [], tbl)"
    by (simp add: param_def bind_err_def none all)
qed

text \<open>
  What the guard and an empty result give, for any store: the not-found error, status 404.
\<close>

lemma guard_or_no_row_is_not_found:
  "(isNaN ident \<longrightarrow>
      (\<exists>e. Job_get db ident st = (Inl e, st) \<and> is_NotFound e \<and> status_of e = 404)
    \<and> (\<exists>e. Job_update db ident data st = (Inl e, st) \<and> is_NotFound e \<and> status_of e = 404)
    \<and> (\<exists>e. Job_remove db ident st = (Inl e, st) \<and> is_NotFound e \<and> status_of e = 404))
   \<and> (\<not> isNaN ident \<and> db SelectById [ident] st = (Inr [], st') \<longrightarrow>
      (\<exists>e. Job_get db ident st = (Inl e, st') \<and> is_NotFound e \<and> status_of e = 404))
   \<and> (\<not> isNaN ident \<and> sqlForPartialUpdate data job_aliases = Inr r
        \<and> db (UpdateJobs (setCols r) (''$'' @ show_nat (length (values' r) + 1)))
             (values' r @ [ident]) st = (Inr [], st') \<longrightarrow>
      (\<exists>e. Job_update db ident data st = (Inl e, st') \<and> is_NotFound e \<and> status_of e = 404))
   \<and> (\<not> isNaN ident \<and> db DeleteById [ident] st = (Inr [], st') \<longrightarrow>
      (\<exists>e. Job_remove db ident st = (Inl e, st') \<and> is_NotFound e \<and> status_of e = 404))
   \<and> (\<not> isNaN ident \<and> pg_integer ident = Inr (Some n) \<and> (\<forall>j\<in>set tbl. job_id j \<noteq> n) \<longrightarrow>
      (\<exists>e. Job_get pg_query ident tbl = (Inl e, tbl) \<and> is_NotFound e \<and> status_of e = 404)
    \<and> (\<exists>e. Job_remove pg_query ident tbl = (Inl e, tbl) \<and> is_NotFound e \<and> status_of e = 404))"
proof -
  have "\<not> isNaN ident \<and> pg_integer ident = Inr (Some n) \<and> (\<forall>j\<in>set tbl. job_id j \<noteq> n) \<longrightarrow>
      (\<exists>e. Job_get pg_query ident tbl = (Inl e, tbl) \<and> is_NotFound e \<and> status_of e = 404)
    \<and> (\<exists>e. Job_remove pg_query ident tbl = (Inl e, tbl) \<and> is_NotFound e \<and> status_of e = 404)"
    using pg_no_such_id[of ident n tbl]
    by (simp add: Job_get_def Job_remove_def query_then_rows del: pg_query.simps)
  then show ?thesis
    by (simp add: Job_get_def Job_update_def Job_remove_def query_then_rows Let_def
        del: pg_query.simps)
qed

section \<open>Reading back the \<open>SET\<close> clause\<close>














lemma length_setFragments: "length (setFragments A idx ks) = length ks"
  by (induction ks arbitrary: idx) simp_all

lemma nth_setFragments:
  "i < length ks \<Longrightarrow>
   setFragments A idx ks ! i =
     [CHR 0x22] @ column A (ks ! i) @ [CHR 0x22] @ ''=$'' @ show_nat (idx + i + 1)"
proof (induction ks arbitrary: idx i)
  case Nil
  then show ?case by simp
next
  case (Cons k ks)
  show ?case
  proof (cases i)
    case 0
    then show ?thesis by simp
  next
    case (Suc j)
    with Cons.prems have "j < length ks" by simp
    from Cons.IH[OF this, of "idx + 1"] Suc show ?thesis by simp
  qed
qed

lemma setFragments_map:
  "setFragments A 0 (map fst P) =
   map (\<lambda>i. [CHR 0x22] @ column A (fst (P ! i)) @ [CHR 0x22] @ ''=$'' @ show_nat (i + 1))
     [0..<length P]"
  by (rule nth_equalityI) (simp_all add: length_setFragments nth_setFragments)

section \<open>Rows changed by an update\<close>








section \<open>The claims\<close>

text \<open>
  C1 (the code departs from the claim). The title condition is
  \<^verbatim>\<open>LOWER(jobs.title) LIKE $1\<close> and its parameter is the title as given between two
  percent signs: the stored title is lowered, the pattern is not. For the claim's own
  example, title \<open>eng\<close> with minimum salary 50000, the statement and the parameters are the
  claimed ones. For the title \<open>J\<close> the parameter is \<open>%J%\<close>, and on the test database no
  row is returned although every title there contains \<open>J\<close>; the title \<open>j\<close> returns all
  three rows.
\<close>

theorem title_pattern_keeps_case:
  "findAllFiltered_query \<lparr>title = JStr ''eng'', minSalary = JNum 50000, hasEquity = JUndefined\<rparr>
     = Some (SelectJobs [TitleLike 1, SalaryGe 2] OrderBySalaryDesc, [JStr ''%eng%'', JNum 50000])
   \<and> findAllFiltered_query \<lparr>title = JStr ''J'', minSalary = JUndefined, hasEquity = JUndefined\<rparr>
     = Some (SelectJobs [TitleLike 1] OrderBySalaryDesc, [JStr ''%J%''])
   \<and> Job_findAllFiltered pg_query
       \<lparr>title = JStr ''J'', minSalary = JUndefined, hasEquity = JUndefined\<rparr> test_jobs
     = (Inr (Some []), test_jobs)
   \<and> Job_findAllFiltered pg_query
       \<lparr>title = JStr ''j'', minSalary = JUndefined, hasEquity = JUndefined\<rparr> test_jobs
     = (Inr (Some [job_J3, job_J2, job_J1]), test_jobs)"
  by (simp add: ev)

theorem title_pattern_keeps_case_witness:
  "fst (Job_findAllFiltered pg_query
       \<lparr>title = JStr ''J'', minSalary = JUndefined, hasEquity = JUndefined\<rparr> test_jobs)
     \<noteq> fst (Job_findAllFiltered pg_query
       \<lparr>title = JStr ''j'', minSalary = JUndefined, hasEquity = JUndefined\<rparr> test_jobs)"
  using title_pattern_keeps_case by simp

text \<open>
  C2, as stated, fails when the minimum salary is the number 0: with a title the query is
  the title-only one, and alone there is no query at all.
\<close>

theorem minSalary_zero_counterexample:
  "findAllFiltered_query \<lparr>title = JStr ''eng'', minSalary = JNum 0, hasEquity = JUndefined\<rparr>
     = Some (SelectJobs [TitleLike 1] OrderBySalaryDesc, [JStr ''%eng%''])
   \<and> findAllFiltered_query \<lparr>title = JUndefined, minSalary = JNum 0, hasEquity = JUndefined\<rparr>
     = None"
  by (simp add: findAllFiltered_query_def)

text \<open>
  C2, amended. For every criteria record whose minimum salary is truthy (a number other
  than 0, a non-empty string), the query has the condition \<^verbatim>\<open>salary >= $k\<close> at position
  \<open>k\<close>, and its \<open>k\<close>-th parameter is the minimum salary as given. The three criteria are
  independent flags by truthiness: the query is the one composed criterion by criterion,
  so every truthy criterion contributes its condition and parameter and no other does.
\<close>

theorem minSalary_predicate_when_truthy:
  "(truthy (minSalary c) \<longrightarrow>
      (\<exists>cs ps k. findAllFiltered_query c = Some (SelectJobs cs OrderBySalaryDesc, ps)
         \<and> length ps = length cs \<and> k < length cs \<and> cs ! k = SalaryGe (k + 1)
         \<and> ps ! k = minSalary c))
   \<and> findAllFiltered_query c = composed_query c"
  using findAllFiltered_query_salary[of c] findAllFiltered_query_composed[of c] by blast

theorem minSalary_predicate_when_truthy_witness:
  "truthy (JNum 50000)
   \<and> findAllFiltered_query \<lparr>title = JStr ''eng'', minSalary = JNum 50000, hasEquity = JUndefined\<rparr>
     = Some (SelectJobs [TitleLike 1, SalaryGe 2] OrderBySalaryDesc, [JStr ''%eng%'', JNum 50000])
   \<and> (\<exists>cs ps k.
         findAllFiltered_query \<lparr>title = JStr ''eng'', minSalary = JNum 50000, hasEquity = JUndefined\<rparr>
           = Some (SelectJobs cs OrderBySalaryDesc, ps)
         \<and> length ps = length cs \<and> k < length cs \<and> cs ! k = SalaryGe (k + 1)
         \<and> ps ! k = JNum 50000)"
proof -
  let ?c = "\<lparr>title = JStr ''eng'', minSalary = JNum 50000, hasEquity = JUndefined\<rparr>"
  have m: "truthy (minSalary ?c)" by simp
  note inst = minSalary_predicate_when_truthy[of ?c]
  from inst have "findAllFiltered_query ?c = composed_query ?c" by blast
  also have "\<dots> = Some (SelectJobs [TitleLike 1, SalaryGe 2] OrderBySalaryDesc,
                        [JStr ''%eng%'', JNum 50000])"
    by (simp add: composed_query_def criterion_parts_def)
  finally have q: "findAllFiltered_query ?c
      = Some (SelectJobs [TitleLike 1, SalaryGe 2] OrderBySalaryDesc, [JStr ''%eng%'', JNum 50000])" .
  from inst m have "\<exists>cs ps k. findAllFiltered_query ?c = Some (SelectJobs cs OrderBySalaryDesc, ps)
         \<and> length ps = length cs \<and> k < length cs \<and> cs ! k = SalaryGe (k + 1)
         \<and> ps ! k = minSalary ?c"
    by blast
  then have "\<exists>cs ps k. findAllFiltered_query ?c = Some (SelectJobs cs OrderBySalaryDesc, ps)
         \<and> length ps = length cs \<and> k < length cs \<and> cs ! k = SalaryGe (k + 1)
         \<and> ps ! k = JNum 50000"
    by simp
  with q show ?thesis by simp
qed

text \<open>
  C3. For every non-empty payload \<open>P\<close> and alias map \<open>A\<close> the builder succeeds; its values
  are as many as \<open>P\<close> has keys, the \<open>i\<close>-th being the \<open>i\<close>-th value of \<open>P\<close> unchanged;
  and its \<open>setCols\<close> is the fragments joined by a comma and a blank, the \<open>i\<close>-th fragment
  (from 0) being the double-quoted column, \<open>=$\<close> and the decimal \<open>i + 1\<close>, where the
  column is \<open>A\<close>'s entry for the \<open>i\<close>-th key if it has one and the key itself otherwise.
\<close>

theorem sqlForPartialUpdate_keys_in_order:
  assumes "P \<noteq> []"
  shows "\<exists>r. sqlForPartialUpdate P A = Inr r
           \<and> length (values' r) = length P
           \<and> (\<forall>i<length P. values' r ! i = snd (P ! i))
           \<and> setCols r =
               join '', ''
                 (map (\<lambda>i. [CHR 0x22]
                          @ (case A (fst (P ! i)) of Some c \<Rightarrow> c | None \<Rightarrow> fst (P ! i))
                          @ [CHR 0x22] @ ''=$'' @ show_nat (i + 1))
                    [0..<length P])"
  using assms by (simp add: sqlForPartialUpdate_def setFragments_map column_def)

theorem sqlForPartialUpdate_keys_in_order_witness:
  "[(''name'', JStr ''Bauer-Gallagher''), (''description'', JStr ''Difficult''),
    (''numEmployees'', JNum 1000)] \<noteq> []
   \<and> (\<exists>r. sqlForPartialUpdate
            [(''name'', JStr ''Bauer-Gallagher''), (''description'', JStr ''Difficult''),
             (''numEmployees'', JNum 1000)]
            [''numEmployees'' \<mapsto> ''num_employees'', ''logoUrl'' \<mapsto> ''logo_url''] = Inr r
         \<and> values' r = [JStr ''Bauer-Gallagher'', JStr ''Difficult'', JNum 1000]
         \<and> setCols r =
             [CHR 0x22] @ ''name'' @ [CHR 0x22] @ ''=$1, '' @ [CHR 0x22] @ ''description''
               @ [CHR 0x22] @ ''=$2, '' @ [CHR 0x22] @ ''num_employees'' @ [CHR 0x22] @ ''=$3'')"
proof -
  let ?P = "[(''name'', JStr ''Bauer-Gallagher''), (''description'', JStr ''Difficult''),
             (''numEmployees'', JNum 1000)]"
  let ?A = "[''numEmployees'' \<mapsto> ''num_employees'', ''logoUrl'' \<mapsto> ''logo_url'']"
  have ne: "?P \<noteq> []" by simp
  from sqlForPartialUpdate_keys_in_order[OF ne, of ?A]
  obtain r where r: "sqlForPartialUpdate ?P ?A = Inr r"
    and v: "\<forall>i<length ?P. values' r ! i = snd (?P ! i)"
    and l: "length (values' r) = length ?P"
    and s: "setCols r =
               join '', ''
                 (map (\<lambda>i. [CHR 0x22]
                          @ (case ?A (fst (?P ! i)) of Some c \<Rightarrow> c | None \<Rightarrow> fst (?P ! i))
                          @ [CHR 0x22] @ ''=$'' @ show_nat (i + 1))
                    [0..<length ?P])"
    by blast
  have "values' r = [JStr ''Bauer-Gallagher'', JStr ''Difficult'', JNum 1000]"
    using v l by (simp add: list_eq_iff_nth_eq less_Suc_eq numeral_3_eq_3)
  moreover have "setCols r =
             [CHR 0x22] @ ''name'' @ [CHR 0x22] @ ''=$1, '' @ [CHR 0x22] @ ''description''
               @ [CHR 0x22] @ ''=$2, '' @ [CHR 0x22] @ ''num_employees'' @ [CHR 0x22] @ ''=$3''"
    unfolding s by (simp add: upt_rec show_nat.simps digit_char_def)
  ultimately show ?thesis using r by simp
qed

text \<open>
  C4, as stated, fails for an identifier that is not numeric: \<^verbatim>\<open>Job.update\<close> tests the
  identifier before it calls the builder, so \<^verbatim>\<open>Job.update("nope", {})\<close> raises the
  not-found error (404), not the bad-request one.
\<close>

theorem empty_payload_not_numeric_counterexample:
  "Job_update pg_query (JStr ''nope'') [] test_jobs
     = (Inl (NotFoundError ''Invalid Job ID: nope''), test_jobs)
   \<and> \<not> is_BadRequest (NotFoundError ''Invalid Job ID: nope'')
   \<and> status_of (NotFoundError ''Invalid Job ID: nope'') = 404"
  by (simp add: ev)

text \<open>
  C4, amended. For every alias map the builder fails on the empty payload with a
  bad-request error, and so does \<^verbatim>\<open>Job.update(id, {})\<close> for every identifier in numeric
  form, whatever the store, which is not queried; the error maps to status 400.
\<close>

theorem empty_payload_is_bad_request:
  "(\<exists>e. sqlForPartialUpdate [] A = Inl e \<and> is_BadRequest e \<and> status_of e = 400)
   \<and> (\<not> isNaN ident \<longrightarrow>
        (\<exists>e. Job_update db ident [] st = (Inl e, st) \<and> is_BadRequest e \<and> status_of e = 400))"
  by (simp add: sqlForPartialUpdate_def Job_update_def)

theorem empty_payload_is_bad_request_witness:
  "\<not> isNaN (JNum 3)
   \<and> (\<exists>e. Job_update pg_query (JNum 3) [] test_jobs = (Inl e, test_jobs)
          \<and> is_BadRequest e \<and> status_of e = 400)"
proof -
  have h: "\<not> isNaN (JNum 3)" by simp
  from empty_payload_is_bad_request[of Map.empty "JNum 3" pg_query test_jobs] h
  show ?thesis by blast
qed

text \<open>
  C5. Whenever at least one criterion is truthy \<^verbatim>\<open>findAllFiltered\<close> builds a query, and
  every query it builds is ordered by salary descending; on the store the rows it returns
  are sorted that way. \<^verbatim>\<open>findAll\<close> sends the query without conditions ordered by company
  handle, and on the store returns all rows sorted ascending by company handle.
\<close>

theorem filtered_by_salary_all_by_handle:
  "(truthy (title c) \<or> truthy (minSalary c) \<or> truthy (hasEquity c) \<longrightarrow>
      (\<exists>cs ps. findAllFiltered_query c = Some (SelectJobs cs OrderBySalaryDesc, ps)))
   \<and> (\<forall>q ps. findAllFiltered_query c = Some (q, ps) \<longrightarrow>
        (\<exists>cs. q = SelectJobs cs OrderBySalaryDesc))
   \<and> (\<forall>rows tbl'. Job_findAllFiltered pg_query c tbl = (Inr (Some rows), tbl') \<longrightarrow>
        sorted_wrt (order_le OrderBySalaryDesc) rows)
   \<and> Job_findAll db st = query_then db (SelectJobs [] OrderByCompanyHandle) [] st Inr
   \<and> (\<exists>rows. Job_findAll pg_query tbl = (Inr rows, tbl) \<and> set rows = set tbl
        \<and> sorted_wrt (order_le OrderByCompanyHandle) rows)"
proof (intro conjI allI impI)
  assume "truthy (title c) \<or> truthy (minSalary c) \<or> truthy (hasEquity c)"
  then show "\<exists>cs ps. findAllFiltered_query c = Some (SelectJobs cs OrderBySalaryDesc, ps)"
    by (rule findAllFiltered_query_some)
next
  fix q ps
  assume "findAllFiltered_query c = Some (q, ps)"
  then show "\<exists>cs. q = SelectJobs cs OrderBySalaryDesc"
    by (rule findAllFiltered_query_order)
next
  fix rows tbl'
  assume "Job_findAllFiltered pg_query c tbl = (Inr (Some rows), tbl')"
  from filtered_rows[OF this] show "sorted_wrt (order_le OrderBySalaryDesc) rows"
    by (auto simp: sorted_order_le)
next
  show "Job_findAll db st = query_then db (SelectJobs [] OrderByCompanyHandle) [] st Inr"
    by (simp add: Job_findAll_def)
next
  have "Job_findAll pg_query tbl = (Inr (sort_by (order_le OrderByCompanyHandle) tbl), tbl)"
    by (simp add: Job_findAll_def query_then_def)
  then show "\<exists>rows. Job_findAll pg_query tbl = (Inr rows, tbl) \<and> set rows = set tbl
        \<and> sorted_wrt (order_le OrderByCompanyHandle) rows"
    by (simp add: set_sort_by sorted_order_le)
qed

theorem filtered_by_salary_all_by_handle_witness:
  "truthy (JNum 200000)
   \<and> (\<exists>cs ps. findAllFiltered_query
                 \<lparr>title = JUndefined, minSalary = JNum 200000, hasEquity = JUndefined\<rparr>
               = Some (SelectJobs cs OrderBySalaryDesc, ps))
   \<and> Job_findAllFiltered pg_query
       \<lparr>title = JUndefined, minSalary = JNum 200000, hasEquity = JUndefined\<rparr> test_jobs
     = (Inr (Some [job_J3, job_J2]), test_jobs)
   \<and> sorted_wrt (order_le OrderBySalaryDesc) [job_J3, job_J2]
   \<and> Job_findAll pg_query test_jobs = (Inr [job_J1, job_J2, job_J3], test_jobs)"
proof -
  let ?c = "\<lparr>title = JUndefined, minSalary = JNum 200000, hasEquity = JUndefined\<rparr>"
  have m: "truthy (minSalary ?c)" by simp
  have run: "Job_findAllFiltered pg_query ?c test_jobs = (Inr (Some [job_J3, job_J2]), test_jobs)"
    by (simp add: ev show_nat.simps)
  note inst = filtered_by_salary_all_by_handle[of ?c test_jobs pg_query test_jobs]
  from inst m have "\<exists>cs ps. findAllFiltered_query ?c = Some (SelectJobs cs OrderBySalaryDesc, ps)"
    by blast
  moreover from inst run have "sorted_wrt (order_le OrderBySalaryDesc) [job_J3, job_J2]"
    by blast
  moreover have "Job_findAll pg_query test_jobs = (Inr [job_J1, job_J2, job_J3], test_jobs)"
    by (simp add: ev)
  ultimately show ?thesis using run by simp
qed

text \<open>
  C6, as stated, fails on a table that holds a negative equity: the condition is
  \<^verbatim>\<open>equity != 0\<close>, so such a row is returned although its equity is not greater than zero.
\<close>

theorem hasEquity_negative_counterexample:
  "Job_findAllFiltered pg_query \<lparr>title = JUndefined, minSalary = JUndefined, hasEquity = JBool True\<rparr>
     [\<lparr>job_id = 1, job_title = ''J1'', salary = Some 100000, equity = Some (- (1 / 2)),
       company_handle = ''c1''\<rparr>]
   = (Inr (Some [\<lparr>job_id = 1, job_title = ''J1'', salary = Some 100000, equity = Some (- (1 / 2)),
                  company_handle = ''c1''\<rparr>]),
      [\<lparr>job_id = 1, job_title = ''J1'', salary = Some 100000, equity = Some (- (1 / 2)),
        company_handle = ''c1''\<rparr>])
   \<and> \<not> (0 :: rat) < - (1 / 2)"
  by (simp add: ev show_nat.simps)

text \<open>
  C6, amended. With a truthy \<open>hasEquity\<close> the query ends in the condition
  \<^verbatim>\<open>equity != $n\<close>, \<open>n\<close> being the number of parameters, and the parameters end in the
  literal 0; no other condition is on equity. With only \<open>hasEquity\<close> truthy the query is
  exactly that condition with parameters \<open>[0]\<close>, and the rows returned are the rows whose
  equity is not null and not zero. With a falsy \<open>hasEquity\<close> no condition is on equity.
  Every row returned under a truthy \<open>hasEquity\<close> is a stored row whose equity is not null
  and not zero: greater than zero when the table holds no negative equity.
\<close>

theorem hasEquity_predicate:
  "(truthy (hasEquity c) \<longrightarrow>
      (\<exists>cs ps. findAllFiltered_query c
           = Some (SelectJobs (cs @ [EquityNe (length cs + 1)]) OrderBySalaryDesc, ps @ [JNum 0])
         \<and> length ps = length cs \<and> (\<forall>n. EquityNe n \<notin> set cs)))
   \<and> (\<not> truthy (title c) \<and> \<not> truthy (minSalary c) \<and> truthy (hasEquity c) \<longrightarrow>
        findAllFiltered_query c = Some (SelectJobs [EquityNe 1] OrderBySalaryDesc, [JNum 0])
        \<and> (\<exists>rows. Job_findAllFiltered pg_query c tbl = (Inr (Some rows), tbl)
              \<and> set rows = {j \<in> set tbl. \<exists>e. equity j = Some e \<and> e \<noteq> 0}))
   \<and> (\<not> truthy (hasEquity c) \<longrightarrow>
        (\<forall>cs ob ps n. findAllFiltered_query c = Some (SelectJobs cs ob, ps) \<longrightarrow>
           EquityNe n \<notin> set cs))
   \<and> (truthy (hasEquity c) \<and> Job_findAllFiltered pg_query c tbl = (Inr (Some rows), tbl') \<longrightarrow>
        (\<forall>j\<in>set rows. j \<in> set tbl \<and> (\<exists>e. equity j = Some e \<and> e \<noteq> 0)))
   \<and> (truthy (hasEquity c) \<and> Job_findAllFiltered pg_query c tbl = (Inr (Some rows), tbl')
        \<and> (\<forall>j\<in>set tbl. \<forall>e. equity j = Some e \<longrightarrow> 0 \<le> e) \<longrightarrow>
        (\<forall>j\<in>set rows. \<exists>e. equity j = Some e \<and> 0 < e))"
proof (intro conjI impI)
  assume "truthy (hasEquity c)"
  then show "\<exists>cs ps. findAllFiltered_query c
           = Some (SelectJobs (cs @ [EquityNe (length cs + 1)]) OrderBySalaryDesc, ps @ [JNum 0])
         \<and> length ps = length cs \<and> (\<forall>n. EquityNe n \<notin> set cs)"
    by (rule findAllFiltered_query_equity)
next
  assume "\<not> truthy (title c) \<and> \<not> truthy (minSalary c) \<and> truthy (hasEquity c)"
  then show "findAllFiltered_query c = Some (SelectJobs [EquityNe 1] OrderBySalaryDesc, [JNum 0])"
    by (simp add: findAllFiltered_query_def)
next
  assume "\<not> truthy (title c) \<and> \<not> truthy (minSalary c) \<and> truthy (hasEquity c)"
  then show "\<exists>rows. Job_findAllFiltered pg_query c tbl = (Inr (Some rows), tbl)
              \<and> set rows = {j \<in> set tbl. \<exists>e. equity j = Some e \<and> e \<noteq> 0}"
    using equity_only_rows[of c tbl] by blast
next
  assume "\<not> truthy (hasEquity c)"
  then show "\<forall>cs ob ps n. findAllFiltered_query c = Some (SelectJobs cs ob, ps) \<longrightarrow>
           EquityNe n \<notin> set cs"
    using findAllFiltered_query_no_equity[of c] by blast
next
  assume "truthy (hasEquity c) \<and> Job_findAllFiltered pg_query c tbl = (Inr (Some rows), tbl')"
  then show "\<forall>j\<in>set rows. j \<in> set tbl \<and> (\<exists>e. equity j = Some e \<and> e \<noteq> 0)"
    using equity_rows[of c tbl rows tbl'] by blast
next
  assume a: "truthy (hasEquity c) \<and> Job_findAllFiltered pg_query c tbl = (Inr (Some rows), tbl')
        \<and> (\<forall>j\<in>set tbl. \<forall>e. equity j = Some e \<longrightarrow> 0 \<le> e)"
  show "\<forall>j\<in>set rows. \<exists>e. equity j = Some e \<and> 0 < e"
  proof
    fix j
    assume "j \<in> set rows"
    with a equity_rows[of c tbl rows tbl' j] obtain e where
      "j \<in> set tbl" "equity j = Some e" "e \<noteq> 0"
      by blast
    moreover from this a have "0 \<le> e" by blast
    ultimately show "\<exists>e. equity j = Some e \<and> 0 < e" by auto
  qed
qed

theorem hasEquity_predicate_witness:
  "truthy (JStr ''yes'')
   \<and> Job_findAllFiltered pg_query
       \<lparr>title = JUndefined, minSalary = JUndefined, hasEquity = JStr ''yes''\<rparr> test_jobs
     = (Inr (Some [job_J3, job_J2]), test_jobs)
   \<and> findAllFiltered_query \<lparr>title = JUndefined, minSalary = JUndefined, hasEquity = JStr ''yes''\<rparr>
     = Some (SelectJobs [EquityNe 1] OrderBySalaryDesc, [JNum 0])
   \<and> (\<exists>e. equity job_J3 = Some e \<and> 0 < e) \<and> (\<exists>e. equity job_J2 = Some e \<and> 0 < e)
   \<and> \<not> truthy JUndefined
   \<and> findAllFiltered_query \<lparr>title = JStr ''j'', minSalary = JUndefined, hasEquity = JUndefined\<rparr>
     = Some (SelectJobs [TitleLike 1] OrderBySalaryDesc, [JStr ''%j%''])
   \<and> EquityNe 1 \<notin> set [TitleLike 1]"
proof -
  let ?c = "\<lparr>title = JUndefined, minSalary = JUndefined, hasEquity = JStr ''yes''\<rparr>"
  let ?d = "\<lparr>title = JStr ''j'', minSalary = JUndefined, hasEquity = JUndefined\<rparr>"
  have h: "truthy (hasEquity ?c)" "\<not> truthy (title ?c)" "\<not> truthy (minSalary ?c)" by simp_all
  have run: "Job_findAllFiltered pg_query ?c test_jobs = (Inr (Some [job_J3, job_J2]), test_jobs)"
    by (simp add: ev show_nat.simps)
  have nonneg: "\<forall>j\<in>set test_jobs. \<forall>e. equity j = Some e \<longrightarrow> 0 \<le> e"
    by (simp add: test_jobs_def job_J1_def job_J2_def job_J3_def)
  note inst = hasEquity_predicate[of ?c test_jobs "[job_J3, job_J2]" test_jobs]
  from inst h have q: "findAllFiltered_query ?c
      = Some (SelectJobs [EquityNe 1] OrderBySalaryDesc, [JNum 0])"
    by blast
  from inst h run nonneg have "\<forall>j\<in>set [job_J3, job_J2]. \<exists>e. equity j = Some e \<and> 0 < e"
    by blast
  then have pos: "(\<exists>e. equity job_J3 = Some e \<and> 0 < e) \<and> (\<exists>e. equity job_J2 = Some e \<and> 0 < e)"
    by simp
  have f: "\<not> truthy (hasEquity ?d)" by simp
  have qd: "findAllFiltered_query ?d
      = Some (SelectJobs [TitleLike 1] OrderBySalaryDesc, [JStr ''%j%''])"
    by (simp add: findAllFiltered_query_def)
  from hasEquity_predicate[of ?d] f qd have "EquityNe 1 \<notin> set [TitleLike 1]"
    by blast
  with run q pos qd show ?thesis by simp
qed

text \<open>
  C7 (the code departs from the claim). \<^verbatim>\<open>get\<close>, \<^verbatim>\<open>update\<close> and \<^verbatim>\<open>remove\<close> test
  the identifier with \<^verbatim>\<open>isNaN\<close>. An identifier it rejects, such as \<open>nope\<close>, fails with
  the not-found error, status 404, and so does a numeric identifier that no stored job has.
  But \<^verbatim>\<open>isNaN\<close> accepts identifiers that are not in valid numeric form for the store:
  the blank string (which converts to the number 0), \<open>1.5\<close> and \<open>true\<close> pass the guard,
  reach the store as the parameter compared with the id, and fail there with a fault of
  the store, status 500, not with the not-found error.
\<close>

theorem blank_identifier_is_store_fault:
  "\<not> isNaN (JStr '' '')
   \<and> Job_get pg_query (JStr '' '') test_jobs = (Inl DbError, test_jobs)
   \<and> Job_update pg_query (JStr '' '') [(''title'', JStr ''New'')] test_jobs
     = (Inl DbError, test_jobs)
   \<and> Job_remove pg_query (JStr '' '') test_jobs = (Inl DbError, test_jobs)
   \<and> \<not> isNaN (JStr ''1.5'')
   \<and> Job_get pg_query (JStr ''1.5'') test_jobs = (Inl DbError, test_jobs)
   \<and> \<not> isNaN (JBool True)
   \<and> Job_get pg_query (JBool True) test_jobs = (Inl DbError, test_jobs)
   \<and> \<not> is_NotFound DbError \<and> status_of DbError = 500
   \<and> isNaN (JStr ''nope'')
   \<and> Job_get pg_query (JStr ''nope'') test_jobs
     = (Inl (NotFoundError ''Invalid Job ID: nope''), test_jobs)
   \<and> Job_get pg_query (JNum 9) test_jobs
     = (Inl (NotFoundError ''Invalid Job ID: 9''), test_jobs)
   \<and> status_of (NotFoundError ''Invalid Job ID: 9'') = 404"
  by (simp add: ev show_nat.simps parse_set.simps)

theorem blank_identifier_is_store_fault_witness:
  "fst (Job_get pg_query (JStr '' '') test_jobs) \<noteq> fst (Job_get pg_query (JStr ''nope'') test_jobs)
   \<and> fst (Job_remove pg_query (JStr '' '') test_jobs) = Inl DbError"
  using blank_identifier_is_store_fault by simp

text \<open>
  C8, as stated, fails at its example \<^verbatim>\<open>?minSalary=0\<close>: the value is the string
  \<open>"0"\<close>, which is truthy, so the route gets the salary query and its rows.
\<close>

theorem minSalary_string_zero_counterexample:
  "findAllFiltered_query (criteria_of [(''minSalary'', ''0'')])
     = Some (SelectJobs [SalaryGe 1] OrderBySalaryDesc, [JStr ''0''])
   \<and> route_get_jobs pg_query [(''minSalary'', ''0'')] test_jobs
     = (Inr (Some [job_J3, job_J2, job_J1]), test_jobs)"
  by (simp add: ev)

text \<open>
  C8, amended. With all three criteria falsy \<^verbatim>\<open>findAllFiltered\<close> builds no query and
  returns \<open>undefined\<close> without touching the store. The route calls it whenever the query
  string has a key and only allowed keys, so the case is reached when every value given
  is empty (\<^verbatim>\<open>?title=\<close>, \<^verbatim>\<open>?minSalary=\<close>); \<^verbatim>\<open>?minSalary=0\<close> does not reach it.
\<close>

theorem all_falsy_returns_nothing:
  "(\<not> truthy (title c) \<and> \<not> truthy (minSalary c) \<and> \<not> truthy (hasEquity c) \<longrightarrow>
      findAllFiltered_query c = None \<and> Job_findAllFiltered db c st = (Inr None, st))
   \<and> (q \<noteq> [] \<and> set (map fst q) \<subseteq> set allowedFields \<longrightarrow>
        route_get_jobs db q st = Job_findAllFiltered db (criteria_of q) st)
   \<and> (q \<noteq> [] \<and> set (map fst q) \<subseteq> set allowedFields \<and> (\<forall>kv\<in>set q. snd kv = []) \<longrightarrow>
        route_get_jobs db q st = (Inr None, st))"
proof (intro conjI impI)
  assume "\<not> truthy (title c) \<and> \<not> truthy (minSalary c) \<and> \<not> truthy (hasEquity c)"
  then show "findAllFiltered_query c = None" "Job_findAllFiltered db c st = (Inr None, st)"
    by (simp_all add: Job_findAllFiltered_def findAllFiltered_query_def)
next
  assume "q \<noteq> [] \<and> set (map fst q) \<subseteq> set allowedFields"
  then show "route_get_jobs db q st = Job_findAllFiltered db (criteria_of q) st"
    by (simp add: route_get_jobs_filtered)
next
  assume a: "q \<noteq> [] \<and> set (map fst q) \<subseteq> set allowedFields \<and> (\<forall>kv\<in>set q. snd kv = [])"
  then have "route_get_jobs db q st = Job_findAllFiltered db (criteria_of q) st"
    by (simp add: route_get_jobs_filtered)
  moreover from a have "findAllFiltered_query (criteria_of q) = None"
    by (simp add: findAllFiltered_query_def criteria_of_def query_prop_all_empty)
  ultimately show "route_get_jobs db q st = (Inr None, st)"
    by (simp add: Job_findAllFiltered_def)
qed

theorem all_falsy_returns_nothing_witness:
  "[(''title'', '''')] \<noteq> [] \<and> set (map fst [(''title'', '''')]) \<subseteq> set allowedFields
   \<and> \<not> truthy (title (criteria_of [(''title'', '''')]))
   \<and> \<not> truthy (minSalary (criteria_of [(''title'', '''')]))
   \<and> \<not> truthy (hasEquity (criteria_of [(''title'', '''')]))
   \<and> findAllFiltered_query (criteria_of [(''title'', '''')]) = None
   \<and> route_get_jobs pg_query [(''title'', '''')] test_jobs = (Inr None, test_jobs)"
proof -
  let ?q = "[(''title'', '''')]"
  have a: "?q \<noteq> [] \<and> set (map fst ?q) \<subseteq> set allowedFields \<and> (\<forall>kv\<in>set ?q. snd kv = [])"
    by (simp add: allowedFields_def)
  have f: "\<not> truthy (title (criteria_of ?q)) \<and> \<not> truthy (minSalary (criteria_of ?q))
      \<and> \<not> truthy (hasEquity (criteria_of ?q))"
    by (simp add: criteria_of_def query_prop_def)
  note inst = all_falsy_returns_nothing[of "criteria_of ?q" pg_query test_jobs ?q]
  note none = inst[THEN conjunct1, THEN mp, OF f, THEN conjunct1]
  note route = inst[THEN conjunct2, THEN conjunct2, THEN mp, OF a]
  from a have "?q \<noteq> []" "set (map fst ?q) \<subseteq> set allowedFields" by simp_all
  with f none route show ?thesis by simp
qed

text \<open>
  C9, as stated, fails at \<^verbatim>\<open>?title=j&hasEquity=\<close>: \<open>hasEquity\<close> is present with the
  empty string, which is falsy, so the query has no condition on equity and the job
  without equity is returned.
\<close>

theorem hasEquity_empty_counterexample:
  "findAllFiltered_query (criteria_of [(''title'', ''j''), (''hasEquity'', '''')])
     = Some (SelectJobs [TitleLike 1] OrderBySalaryDesc, [JStr ''%j%''])
   \<and> route_get_jobs pg_query [(''title'', ''j''), (''hasEquity'', '''')] test_jobs
     = (Inr (Some [job_J3, job_J2, job_J1]), test_jobs)
   \<and> equity job_J1 = Some 0"
  by (simp add: ev)

text \<open>
  C9, amended. Through the route a present \<open>hasEquity\<close> is the string given; every
  non-empty string, \<open>"false"\<close> and \<open>"0"\<close> included, is truthy and puts the condition on
  equity, with the literal 0, at the end of the query. The empty string
  (\<^verbatim>\<open>?hasEquity=\<close>) is the one present value that puts no condition on equity.
\<close>

theorem hasEquity_string_activates:
  "(q \<noteq> [] \<and> set (map fst q) \<subseteq> set allowedFields \<and> map_of q ''hasEquity'' = Some s \<and> s \<noteq> []
      \<longrightarrow> route_get_jobs db q st = Job_findAllFiltered db (criteria_of q) st
        \<and> (\<exists>cs ps. findAllFiltered_query (criteria_of q)
              = Some (SelectJobs (cs @ [EquityNe (length cs + 1)]) OrderBySalaryDesc,
                      ps @ [JNum 0])))
   \<and> (map_of q ''hasEquity'' = Some s \<longrightarrow>
        hasEquity (criteria_of q) = JStr s \<and> truthy (hasEquity (criteria_of q)) = (s \<noteq> []))
   \<and> (map_of q ''hasEquity'' = Some [] \<longrightarrow>
        (\<forall>cs ob ps n. findAllFiltered_query (criteria_of q) = Some (SelectJobs cs ob, ps) \<longrightarrow>
           EquityNe n \<notin> set cs))"
proof (intro conjI impI)
  assume a: "q \<noteq> [] \<and> set (map fst q) \<subseteq> set allowedFields
      \<and> map_of q ''hasEquity'' = Some s \<and> s \<noteq> []"
  then show "route_get_jobs db q st = Job_findAllFiltered db (criteria_of q) st"
    by (simp add: route_get_jobs_filtered)
  from a have "truthy (hasEquity (criteria_of q))"
    by (simp add: criteria_of_def query_prop_def)
  from findAllFiltered_query_equity[OF this]
  show "\<exists>cs ps. findAllFiltered_query (criteria_of q)
              = Some (SelectJobs (cs @ [EquityNe (length cs + 1)]) OrderBySalaryDesc,
                      ps @ [JNum 0])"
    by blast
next
  assume "map_of q ''hasEquity'' = Some s"
  then show "hasEquity (criteria_of q) = JStr s"
    and "truthy (hasEquity (criteria_of q)) = (s \<noteq> [])"
    by (simp_all add: criteria_of_def query_prop_def)
next
  assume "map_of q ''hasEquity'' = Some []"
  then have "\<not> truthy (hasEquity (criteria_of q))"
    by (simp add: criteria_of_def query_prop_def)
  then show "\<forall>cs ob ps n. findAllFiltered_query (criteria_of q) = Some (SelectJobs cs ob, ps) \<longrightarrow>
           EquityNe n \<notin> set cs"
    using findAllFiltered_query_no_equity[of "criteria_of q"] by blast
qed

theorem hasEquity_string_activates_witness:
  "[(''hasEquity'', ''false'')] \<noteq> []
   \<and> set (map fst [(''hasEquity'', ''false'')]) \<subseteq> set allowedFields
   \<and> map_of [(''hasEquity'', ''false'')] ''hasEquity'' = Some ''false'' \<and> ''false'' \<noteq> []
   \<and> (\<exists>cs ps. findAllFiltered_query (criteria_of [(''hasEquity'', ''false'')])
              = Some (SelectJobs (cs @ [EquityNe (length cs + 1)]) OrderBySalaryDesc,
                      ps @ [JNum 0]))
   \<and> route_get_jobs pg_query [(''hasEquity'', ''false'')] test_jobs
     = (Inr (Some [job_J3, job_J2]), test_jobs)
   \<and> map_of [(''title'', ''j''), (''hasEquity'', '''')] ''hasEquity'' = Some []
   \<and> findAllFiltered_query (criteria_of [(''title'', ''j''), (''hasEquity'', '''')])
     = Some (SelectJobs [TitleLike 1] OrderBySalaryDesc, [JStr ''%j%''])
   \<and> EquityNe 1 \<notin> set [TitleLike 1]"
proof -
  let ?q = "[(''hasEquity'', ''false'')]"
  let ?p = "[(''title'', ''j''), (''hasEquity'', '''')]"
  have a: "?q \<noteq> [] \<and> set (map fst ?q) \<subseteq> set allowedFields
      \<and> map_of ?q ''hasEquity'' = Some ''false'' \<and> ''false'' \<noteq> []"
    by (simp add: allowedFields_def)
  note act = hasEquity_string_activates[of ?q "''false''" pg_query test_jobs,
      THEN conjunct1, THEN mp, OF a, THEN conjunct2]
  have run: "route_get_jobs pg_query ?q test_jobs = (Inr (Some [job_J3, job_J2]), test_jobs)"
    by (simp add: ev show_nat.simps)
  have e: "map_of ?p ''hasEquity'' = Some []" by simp
  have qp: "findAllFiltered_query (criteria_of ?p)
      = Some (SelectJobs [TitleLike 1] OrderBySalaryDesc, [JStr ''%j%''])"
    by (simp add: ev)
  note none = hasEquity_string_activates[of ?p _ _ _, THEN conjunct2, THEN conjunct2, THEN mp,
      OF e, THEN spec, THEN spec, THEN spec, THEN spec, THEN mp, OF qp]
  show ?thesis
    apply (intro conjI)
           apply (simp add: allowedFields_def)
          apply (simp add: allowedFields_def)
         apply simp
        apply simp
       apply (rule act)
      apply (rule run)
     apply (rule e)
    apply (rule qp)
   apply (rule none)
    done
qed



end
